theory Spec2Isabelle
  imports Complex_Main
begin

section \<open>JavaScript numbers\<close>

text \<open>
  The numbers of \<^verbatim>\<open>colorlegend.js\<close> are JavaScript numbers. They are embedded as exact
  rationals together with the three non-finite values that the arithmetic of the script
  can produce (a division by \<^verbatim>\<open>colors.length = 0\<close>, a subtraction of \<^verbatim>\<open>undefined\<close>).
  The operations below are exact: the rounding of a result to binary64, the overflow of a
  large result to \<^verbatim>\<open>Infinity\<close> and the sign of zero are not part of them (a zero divisor
  is the positive zero, which is what \<^verbatim>\<open>colors.length\<close> is). A statement about the script
  that is to hold of the rounded arithmetic as well is therefore written with the
  expression of the script, operation by operation, and not with another grouping of
  it. The rounding itself is defined in the next section, for the one place where the
  grouping of an expression is in question.
\<close>

datatype jsnum = Fin rat | PosInf | NegInf | NaN

fun js_neg :: "jsnum \<Rightarrow> jsnum" where
  "js_neg (Fin a) = Fin (- a)"
| "js_neg PosInf = NegInf"
| "js_neg NegInf = PosInf"
| "js_neg NaN = NaN"

fun js_add :: "jsnum \<Rightarrow> jsnum \<Rightarrow> jsnum" where
  "js_add (Fin a) (Fin b) = Fin (a + b)"
| "js_add NaN y = NaN"
| "js_add x NaN = NaN"
| "js_add PosInf NegInf = NaN"
| "js_add NegInf PosInf = NaN"
| "js_add PosInf y = PosInf"
| "js_add x PosInf = PosInf"
| "js_add NegInf y = NegInf"
| "js_add x NegInf = NegInf"

fun js_mul :: "jsnum \<Rightarrow> jsnum \<Rightarrow> jsnum" where
  "js_mul (Fin a) (Fin b) = Fin (a * b)"
| "js_mul NaN y = NaN"
| "js_mul x NaN = NaN"
| "js_mul PosInf (Fin b) = (if b = 0 then NaN else if 0 < b then PosInf else NegInf)"
| "js_mul NegInf (Fin b) = (if b = 0 then NaN else if 0 < b then NegInf else PosInf)"
| "js_mul (Fin a) PosInf = (if a = 0 then NaN else if 0 < a then PosInf else NegInf)"
| "js_mul (Fin a) NegInf = (if a = 0 then NaN else if 0 < a then NegInf else PosInf)"
| "js_mul PosInf PosInf = PosInf"
| "js_mul PosInf NegInf = NegInf"
| "js_mul NegInf PosInf = NegInf"
| "js_mul NegInf NegInf = PosInf"

fun js_div :: "jsnum \<Rightarrow> jsnum \<Rightarrow> jsnum" where
  "js_div (Fin a) (Fin b) =
     (if b \<noteq> 0 then Fin (a / b)
      else if a = 0 then NaN else if 0 < a then PosInf else NegInf)"
| "js_div NaN y = NaN"
| "js_div x NaN = NaN"
| "js_div (Fin a) PosInf = Fin 0"
| "js_div (Fin a) NegInf = Fin 0"
| "js_div PosInf (Fin b) = (if 0 \<le> b then PosInf else NegInf)"
| "js_div NegInf (Fin b) = (if 0 \<le> b then NegInf else PosInf)"
| "js_div PosInf y = NaN"
| "js_div NegInf y = NaN"

text \<open>The comparison \<^verbatim>\<open>a < b\<close>: false as soon as one side is \<^verbatim>\<open>NaN\<close>.\<close>

fun js_less :: "jsnum \<Rightarrow> jsnum \<Rightarrow> bool" where
  "js_less (Fin a) (Fin b) = (a < b)"
| "js_less NaN y = False"
| "js_less x NaN = False"
| "js_less x NegInf = False"
| "js_less PosInf y = False"
| "js_less NegInf y = True"
| "js_less x PosInf = True"

text \<open>
  The operators \<open>+\<close>, \<open>-\<close>, \<open>*\<close> and \<open>/\<close> on JavaScript numbers, so that the
  embedding reads like the script. No law of arithmetic is assumed for them.
\<close>

instantiation jsnum :: "{plus, minus, times, inverse}"
begin

definition plus_jsnum :: "jsnum \<Rightarrow> jsnum \<Rightarrow> jsnum" where
  "plus_jsnum a b = js_add a b"

definition minus_jsnum :: "jsnum \<Rightarrow> jsnum \<Rightarrow> jsnum" where
  "minus_jsnum a b = js_add a (js_neg b)"

definition times_jsnum :: "jsnum \<Rightarrow> jsnum \<Rightarrow> jsnum" where
  "times_jsnum a b = js_mul a b"

definition divide_jsnum :: "jsnum \<Rightarrow> jsnum \<Rightarrow> jsnum" where
  "divide_jsnum a b = js_div a b"

definition inverse_jsnum :: "jsnum \<Rightarrow> jsnum" where
  "inverse_jsnum a = js_div (Fin 1) a"

instance ..

end

text \<open>A number counted by the script (an index, a length, a pixel size of the page).\<close>

definition js_of_nat :: "nat \<Rightarrow> jsnum" where
  "js_of_nat n = Fin (of_nat n)"

definition js_of_int :: "int \<Rightarrow> jsnum" where
  "js_of_int n = Fin (of_int n)"

text \<open>
  An array read \<^verbatim>\<open>xs[i]\<close>: outside the array JavaScript yields \<^verbatim>\<open>undefined\<close>, which is
  \<open>None\<close> here. The index is an integer because the script computes \<^verbatim>\<open>length - 1\<close>.
\<close>

definition js_index :: "'a list \<Rightarrow> int \<Rightarrow> 'a option" where
  "js_index xs i = (if 0 \<le> i \<and> i < int (length xs) then Some (xs ! nat i) else None)"

section \<open>Rounding to binary64\<close>

text \<open>
  An arithmetic operation of JavaScript yields the exact result rounded to the nearest
  binary64 number, ties to the even significand. For a positive rational \<open>a\<close> with
  \<open>2 ^ e \<le> a < 2 ^ (e + 1)\<close> the binary64 numbers around \<open>a\<close> are the multiples of
  \<open>2 ^ (e - 52)\<close>; below \<open>2 ^ - 1022\<close> (subnormal numbers) they are the multiples of
  \<open>2 ^ - 1074\<close>; and a result that rounds to \<open>2 ^ 1024\<close> or more is \<^verbatim>\<open>Infinity\<close>.
\<close>

text \<open>The number of binary digits of a natural number.\<close>

fun bits :: "nat \<Rightarrow> nat" where
  "bits n = (if n = 0 then 0 else Suc (bits (n div 2)))"

declare bits.simps [simp del]

definition pow2 :: "int \<Rightarrow> rat" where
  "pow2 e = (if 0 \<le> e then 2 ^ nat e else 1 / 2 ^ nat (- e))"

text \<open>The exponent \<open>e\<close> with \<open>2 ^ e \<le> a < 2 ^ (e + 1)\<close>, for \<open>0 < a\<close>.\<close>

definition floor_log2 :: "rat \<Rightarrow> int" where
  "floor_log2 a =
     (if 1 \<le> a then int (bits (nat \<lfloor>a\<rfloor>)) - 1
      else - int (bits (nat (\<lceil>1 / a\<rceil> - 1))))"

definition round_half_even :: "rat \<Rightarrow> int" where
  "round_half_even q =
     (let f = \<lfloor>q\<rfloor>; d = q - of_int f
      in if d < 1 / 2 then f else if 1 / 2 < d then f + 1
         else if even f then f else f + 1)"

text \<open>The binary64 number nearest to \<open>a > 0\<close>, or \<open>None\<close> when it is \<^verbatim>\<open>Infinity\<close>.\<close>

definition binary64_pos :: "rat \<Rightarrow> rat option" where
  "binary64_pos a =
     (let e = floor_log2 a;
          ulp = pow2 (max e (- 1022) - 52);
          m = round_half_even (a / ulp)
      in if 1024 \<le> e \<or> (e = 1023 \<and> 2 ^ 53 \<le> m) then None else Some (of_int m * ulp))"

definition binary64 :: "rat \<Rightarrow> jsnum" where
  "binary64 x =
     (if x = 0 then Fin 0
      else if 0 < x then (case binary64_pos x of None \<Rightarrow> PosInf | Some r \<Rightarrow> Fin r)
      else (case binary64_pos (- x) of None \<Rightarrow> NegInf | Some r \<Rightarrow> Fin (- r)))"

text \<open>The exact result of an operation, rounded as JavaScript delivers it.\<close>

fun rounded :: "jsnum \<Rightarrow> jsnum" where
  "rounded (Fin a) = binary64 a"
| "rounded PosInf = PosInf"
| "rounded NegInf = NegInf"
| "rounded NaN = NaN"

section \<open>The arguments of \<^verbatim>\<open>colorlegend\<close>\<close>

text \<open>
  A d3 scale as the script uses it: \<^verbatim>\<open>scale.domain()\<close>, \<^verbatim>\<open>scale.range()\<close> and the scale
  called as a function on a number. Domain values are of any type \<open>'d\<close>, colors of any
  type \<open>'c\<close>.
\<close>

record ('d, 'c) scale =
  domain :: "'d list"
  range_scale :: "'c list"
  call :: "jsnum \<Rightarrow> 'c"

text \<open>The options object; \<open>None\<close> is a field that is not set (\<^verbatim>\<open>undefined\<close>).\<close>

record options =
  boxWidth :: "rat option"
  boxHeight :: "rat option"
  title :: "string option"
  fill :: "bool option"
  linearBoxes :: "int option"

definition no_options :: options where
  "no_options = \<lparr>boxWidth = None, boxHeight = None, title = None, fill = None,
     linearBoxes = None\<rparr>"

section \<open>The page\<close>

text \<open>
  What the script appends: elements with a tag, the attributes and styles set on them in
  the order of the calls, a text content and children. A value is a number, a string, a
  domain value, a color, or \<^verbatim>\<open>undefined\<close> (which d3 renders as an empty text).
\<close>

datatype ('d, 'c) val = Num jsnum | Str string | Dom 'd | Col 'c | Undefined

datatype ('d, 'c) node =
  Node (tag: string) (attrs: "(string \<times> ('d, 'c) val) list")
    (styles: "(string \<times> ('d, 'c) val) list") (text_content: "('d, 'c) val")
    (children: "('d, 'c) node list")

text \<open>
  An element of the page that can be a target: its id, its tag name, its size in pixels
  and what has been appended to it.
\<close>

record ('d, 'c) element =
  elem_id :: string
  tagName :: string
  offsetWidth :: int
  offsetHeight :: int
  childNodes :: "('d, 'c) node list"

type_synonym ('d, 'c) document = "('d, 'c) element list"

text \<open>
  \<^verbatim>\<open>document.getElementById(id)\<close>: the first element of the page with this id,
  \<^verbatim>\<open>null\<close> when there is none (the empty id matches nothing).
\<close>

fun getElementById :: "('d, 'c) document \<Rightarrow> string \<Rightarrow> ('d, 'c) element option" where
  "getElementById [] i = None"
| "getElementById (e # es) i =
     (if i \<noteq> [] \<and> elem_id e = i then Some e else getElementById es i)"

text \<open>
  What the script needs from outside its own file: the conversion of a domain value to a
  number that \<^verbatim>\<open>max - min\<close> applies, and \<^verbatim>\<open>d3.select(target)\<close>, which yields the position
  in the page of the selected element, or \<open>None\<close> for an empty selection. Both are
  parameters of the embedding.
\<close>

record ('d, 'c) host =
  ToNumber :: "'d \<Rightarrow> jsnum"
  d3_select :: "('d, 'c) document \<Rightarrow> string \<Rightarrow> nat option"

text \<open>
  \<^verbatim>\<open>selection.append\<close> on the selection of \<^verbatim>\<open>d3.select\<close>: the new node becomes the last
  child of the selected element; on an empty selection nothing is appended.
\<close>

definition d3_append ::
  "('d, 'c) document \<Rightarrow> nat option \<Rightarrow> ('d, 'c) node \<Rightarrow> ('d, 'c) document" where
  "d3_append doc sel n =
     (case sel of
        None \<Rightarrow> doc
      | Some k \<Rightarrow>
          if k < length doc
          then doc[k := (doc ! k)\<lparr>childNodes := childNodes (doc ! k) @ [n]\<rparr>]
          else doc)"

section \<open>The script\<close>

subsection \<open>Validation of the scale type (lines 37 to 47)\<close>

datatype js_error = Error string | TypeError

definition scaleTypes :: "string list" where
  "scaleTypes = [''linear'', ''quantile'', ''ordinal'']"

text \<open>The scan of \<^verbatim>\<open>scaleTypes\<close>, leaving at the first match.\<close>

fun found :: "string list \<Rightarrow> string \<Rightarrow> bool" where
  "found [] type = False"
| "found (s # rest) type = (if s = type then True else found rest type)"

definition UnsupportedScaleType :: "string \<Rightarrow> js_error" where
  "UnsupportedScaleType type = Error (''Scale type, '' @ type @ '', is not suported.'')"

subsection \<open>Options or defaults (lines 49 to 57)\<close>

text \<open>
  \<^verbatim>\<open>v || d\<close> on a field: the default when the field is not set or is falsy (the number 0,
  the empty string, \<^verbatim>\<open>false\<close>).
\<close>

definition or_number :: "rat option \<Rightarrow> rat \<Rightarrow> rat" where
  "or_number v d = (case v of None \<Rightarrow> d | Some x \<Rightarrow> if x = 0 then d else x)"

definition or_integer :: "int option \<Rightarrow> int \<Rightarrow> int" where
  "or_integer v d = (case v of None \<Rightarrow> d | Some x \<Rightarrow> if x = 0 then d else x)"

definition or_null :: "string option \<Rightarrow> string option" where
  "or_null v = (case v of None \<Rightarrow> None | Some s \<Rightarrow> if s = [] then None else Some s)"

definition or_false :: "bool option \<Rightarrow> bool" where
  "or_false v = (case v of None \<Rightarrow> False | Some b \<Rightarrow> b)"

definition or_empty :: "options option \<Rightarrow> options" where
  "or_empty options = (case options of None \<Rightarrow> no_options | Some opts \<Rightarrow> opts)"

subsection \<open>The target element (lines 59 to 68)\<close>

definition htmlElement :: "('d, 'c) document \<Rightarrow> string \<Rightarrow> ('d, 'c) element option" where
  "htmlElement doc target =
     (if take 1 target = ''#'' then getElementById doc (drop 1 target)
      else getElementById doc target)"

subsection \<open>Padding (lines 70 to 73)\<close>

definition padding :: "rat list" where
  "padding = [2, 4, 10, 4]"

definition boxSpacing :: "string \<Rightarrow> rat" where
  "boxSpacing type = (if type = ''ordinal'' then 3 else 0)"

definition titlePadding :: "string option \<Rightarrow> rat" where
  "titlePadding ttl = (case ttl of Some t \<Rightarrow> 11 | None \<Rightarrow> 0)"

subsection \<open>The colors (lines 79 to 95)\<close>

text \<open>
  A color of the sequence is \<open>None\<close> when the script stored \<^verbatim>\<open>undefined\<close> (a read of
  \<^verbatim>\<open>range[i]\<close> beyond the range). Both loops assign \<^verbatim>\<open>colors[i]\<close> with \<open>i\<close> the length
  of \<^verbatim>\<open>colors\<close>, which appends.
\<close>

function ordinal_loop :: "'d list \<Rightarrow> 'c list \<Rightarrow> nat \<Rightarrow> 'c option list \<Rightarrow> 'c option list" where
  "ordinal_loop ds rs i colors =
     (if i < length ds then ordinal_loop ds rs (i + 1) (colors @ [js_index rs (int i)])
      else colors)"
  by pat_completeness auto
termination
  by (relation "measure (\<lambda>(ds, rs, i, colors). length ds - i)") auto

declare ordinal_loop.simps [simp del]

text \<open>\<^verbatim>\<open>undefined\<close> converts to \<^verbatim>\<open>NaN\<close>.\<close>

definition to_number :: "('d \<Rightarrow> jsnum) \<Rightarrow> 'd option \<Rightarrow> jsnum" where
  "to_number conv v = (case v of None \<Rightarrow> NaN | Some d \<Rightarrow> conv d)"

function linear_loop ::
  "(jsnum \<Rightarrow> 'c) \<Rightarrow> jsnum \<Rightarrow> jsnum \<Rightarrow> int \<Rightarrow> nat \<Rightarrow> 'c option list \<Rightarrow> 'c option list" where
  "linear_loop f mn mx lb i colors =
     (if int i < lb
      then linear_loop f mn mx lb (i + 1)
             (colors @ [Some (f (js_of_nat i * ((mx - mn) / js_of_int lb)))])
      else colors)"
  by pat_completeness auto
termination
  by (relation "measure (\<lambda>(f, mn, mx, lb, i, colors). nat lb - i)") auto

declare linear_loop.simps [simp del]

definition colors_of ::
  "('d \<Rightarrow> jsnum) \<Rightarrow> ('d, 'c) scale \<Rightarrow> string \<Rightarrow> int \<Rightarrow> 'c option list" where
  "colors_of conv scale type lb =
     (if type = ''quantile'' then map Some (range_scale scale)
      else if type = ''ordinal'' then ordinal_loop (domain scale) (range_scale scale) 0 []
      else if type = ''linear'' then
        (let mn = to_number conv (js_index (domain scale) 0);
             mx = to_number conv (js_index (domain scale) (int (length (domain scale)) - 1))
         in linear_loop (call scale) mn mx lb 0 [])
      else [])"

text \<open>
  The argument of the scale in line 93, \<^verbatim>\<open>i * ((max - min) / linearBoxes)\<close>, with every
  operation rounded to binary64 as JavaScript computes it, and the expression
  \<^verbatim>\<open>i * (max - min) / linearBoxes\<close>, which JavaScript reads as
  \<^verbatim>\<open>(i * (max - min)) / linearBoxes\<close>, computed in the same way. In exact arithmetic the
  two are the same number.
\<close>

definition line93_binary64 :: "nat \<Rightarrow> jsnum \<Rightarrow> jsnum \<Rightarrow> int \<Rightarrow> jsnum" where
  "line93_binary64 i mn mx lb =
     rounded (js_of_nat i * rounded (rounded (mx - mn) / js_of_int lb))"

definition regrouped_binary64 :: "nat \<Rightarrow> jsnum \<Rightarrow> jsnum \<Rightarrow> int \<Rightarrow> jsnum" where
  "regrouped_binary64 i mn mx lb =
     rounded (rounded (js_of_nat i * rounded (mx - mn)) / js_of_int lb)"

subsection \<open>Fitting the boxes into the element (lines 97 to 104)\<close>

definition fit_boxWidth :: "bool \<Rightarrow> jsnum \<Rightarrow> rat \<Rightarrow> rat \<Rightarrow> nat \<Rightarrow> jsnum" where
  "fit_boxWidth fl w bw spacing n =
     (if fl \<or> js_less w ((Fin bw + Fin spacing) * js_of_nat n
                            + Fin (padding ! 1) + Fin (padding ! 3))
      then (w - Fin (padding ! 1) - Fin (padding ! 3) - (Fin spacing * js_of_nat n))
             / js_of_nat n
      else Fin bw)"

definition fit_boxHeight :: "bool \<Rightarrow> jsnum \<Rightarrow> rat \<Rightarrow> rat \<Rightarrow> jsnum" where
  "fit_boxHeight fl h bh tp =
     (if fl \<or> js_less h (Fin bh + Fin (padding ! 0) + Fin (padding ! 2) + Fin tp)
      then h - Fin (padding ! 0) - Fin (padding ! 2) - Fin tp
      else Fin bh)"

subsection \<open>The legend (lines 106 to 169)\<close>

definition opt_val :: "('a \<Rightarrow> ('d, 'c) val) \<Rightarrow> 'a option \<Rightarrow> ('d, 'c) val" where
  "opt_val con v = (case v of None \<Rightarrow> Undefined | Some x \<Rightarrow> con x)"

text \<open>The text of the label of box \<open>i\<close> (lines 135 to 147).\<close>

definition label_text :: "string \<Rightarrow> 'd list \<Rightarrow> nat \<Rightarrow> nat \<Rightarrow> 'd option" where
  "label_text type ds n i =
     (if type = ''ordinal'' then js_index ds (int i)
      else if i = 0 then js_index ds 0
      else if int i = int n - 1 then js_index ds (int (length ds) - 1)
      else None)"

definition label_node ::
  "string \<Rightarrow> 'd list \<Rightarrow> jsnum \<Rightarrow> jsnum \<Rightarrow> nat \<Rightarrow> nat \<Rightarrow> ('d, 'c) node" where
  "label_node type ds bw bh n i =
     Node ''text''
       [(''class'', Str ''colorlegend-labels''),
        (''dy'', Str ''.71em''),
        (''x'', Num (js_of_nat i * (bw + Fin (boxSpacing type))
                     + (if type \<noteq> ''ordinal'' then bw / Fin 2 else Fin 0))),
        (''y'', Num (bh + Fin 2))]
       [(''text-anchor'', Str (if type = ''ordinal'' then ''start'' else ''middle'')),
        (''pointer-events'', Str ''none'')]
       (opt_val Dom (label_text type ds n i))
       []"

definition rect_node ::
  "string \<Rightarrow> 'c option list \<Rightarrow> jsnum \<Rightarrow> jsnum \<Rightarrow> nat \<Rightarrow> ('d, 'c) node" where
  "rect_node type colors bw bh i =
     Node ''rect''
       [(''x'', Num (js_of_nat i * (bw + Fin (boxSpacing type)))),
        (''width'', Num bw),
        (''height'', Num bh)]
       [(''fill'', opt_val Col (colors ! i))]
       Undefined
       []"

text \<open>
  One \<^verbatim>\<open>g\<close> for each entry of \<^verbatim>\<open>colors\<close> (the data join on a fresh group enters all of
  them), each with its label and then its rectangle.
\<close>

definition legendBoxes ::
  "string \<Rightarrow> 'd list \<Rightarrow> 'c option list \<Rightarrow> jsnum \<Rightarrow> jsnum \<Rightarrow> ('d, 'c) node list" where
  "legendBoxes type ds colors bw bh =
     map (\<lambda>i. Node ''g'' [] [] Undefined
                 [label_node type ds bw bh (length colors) i, rect_node type colors bw bh i])
       [0 ..< length colors]"

definition title_node ::
  "string option \<Rightarrow> nat \<Rightarrow> jsnum \<Rightarrow> jsnum \<Rightarrow> ('d, 'c) node list" where
  "title_node ttl n bw bh =
     (case ttl of
        None \<Rightarrow> []
      | Some t \<Rightarrow>
          [Node ''text''
             [(''class'', Str ''colorlegend-title''),
              (''x'', Num (js_of_nat n * (bw / Fin 2))),
              (''y'', Num (bh + Fin (titlePadding ttl))),
              (''dy'', Str ''.71em'')]
             [(''text-anchor'', Str ''middle''),
              (''pointer-events'', Str ''none'')]
             (Str t)
             []])"

text \<open>
  The \<^verbatim>\<open>svg\<close> of the size of the element, holding the group \<^verbatim>\<open>g.colorlegend\<close> translated
  by the left and top padding (the string built from \<^verbatim>\<open>padding[3]\<close> and \<^verbatim>\<open>padding[0]\<close> is
  \<^verbatim>\<open>translate(4,2)\<close>); the group holds the boxes and then the title.
\<close>

definition legend ::
  "jsnum \<Rightarrow> jsnum \<Rightarrow> ('d, 'c) node list \<Rightarrow> ('d, 'c) node" where
  "legend w h content =
     Node ''svg'' [(''width'', Num w), (''height'', Num h)] [] Undefined
       [Node ''g''
          [(''class'', Str ''colorlegend''), (''transform'', Str ''translate(4,2)'')]
          [(''font-size'', Str ''11px''), (''fill'', Str ''#666'')]
          Undefined
          content]"

subsection \<open>\<^verbatim>\<open>colorlegend(target, scale, type, options)\<close>\<close>

text \<open>
  The result is the exception thrown, if any, and the page as the call leaves it. When no
  element has the id of the target, \<^verbatim>\<open>htmlElement\<close> is \<^verbatim>\<open>null\<close> and reading its
  \<^verbatim>\<open>offsetWidth\<close> throws a \<^verbatim>\<open>TypeError\<close>; like the error of the type check, it is thrown
  before anything is appended.
\<close>

definition colorlegend ::
  "('d, 'c) host \<Rightarrow> ('d, 'c) document \<Rightarrow> string \<Rightarrow> ('d, 'c) scale \<Rightarrow> string \<Rightarrow>
   options option \<Rightarrow> (js_error + unit) \<times> ('d, 'c) document" where
  "colorlegend env doc target scale type options =
     (if \<not> found scaleTypes type then (Inl (UnsupportedScaleType type), doc)
      else
        let opts = or_empty options;
            bw0 = or_number (boxWidth opts) 20;
            bh0 = or_number (boxHeight opts) 20;
            ttl = or_null (title opts);
            fl = or_false (fill opts);
            lb = or_integer (linearBoxes opts) 9
        in case htmlElement doc target of
             None \<Rightarrow> (Inl TypeError, doc)
           | Some el \<Rightarrow>
               let w = js_of_int (offsetWidth el);
                   h = js_of_int (offsetHeight el);
                   colors = colors_of (ToNumber env) scale type lb;
                   bw = fit_boxWidth fl w bw0 (boxSpacing type) (length colors);
                   bh = fit_boxHeight fl h bh0 (titlePadding ttl)
               in (Inr (),
                   d3_append doc (d3_select env doc target)
                     (legend w h
                        (legendBoxes type (domain scale) colors bw bh
                         @ title_node ttl (length colors) bw bh))))"

section \<open>Reading the page after the call\<close>

text \<open>
  The node last appended to element \<open>k\<close> of the page, the children of its group
  \<^verbatim>\<open>g.colorlegend\<close>, and among them the box groups and the title texts. A box group
  holds its label first and its rectangle second.
\<close>

definition appended :: "('d, 'c) document \<Rightarrow> nat \<Rightarrow> ('d, 'c) node" where
  "appended doc k = last (childNodes (doc ! k))"

definition legend_content :: "('d, 'c) document \<Rightarrow> nat \<Rightarrow> ('d, 'c) node list" where
  "legend_content doc k = children (hd (children (appended doc k)))"

definition legend_boxes :: "('d, 'c) document \<Rightarrow> nat \<Rightarrow> ('d, 'c) node list" where
  "legend_boxes doc k = filter (\<lambda>n. tag n = ''g'') (legend_content doc k)"

definition legend_titles :: "('d, 'c) document \<Rightarrow> nat \<Rightarrow> ('d, 'c) node list" where
  "legend_titles doc k = filter (\<lambda>n. tag n = ''text'') (legend_content doc k)"

definition box_label :: "('d, 'c) node \<Rightarrow> ('d, 'c) node" where
  "box_label b = children b ! 0"

definition box_rect :: "('d, 'c) node \<Rightarrow> ('d, 'c) node" where
  "box_rect b = children b ! 1"

definition attr :: "('d, 'c) node \<Rightarrow> string \<Rightarrow> ('d, 'c) val option" where
  "attr n key = map_of (attrs n) key"

definition style :: "('d, 'c) node \<Rightarrow> string \<Rightarrow> ('d, 'c) val option" where
  "style n key = map_of (styles n) key"

section \<open>A page and scales to run the script on\<close>

text \<open>
  \<^verbatim>\<open>d3.select\<close> hands a selector string to \<^verbatim>\<open>document.querySelector\<close>. For the example
  pages two forms of selector are modelled, both built from a plain identifier (a letter
  or an underscore, followed by letters, digits, hyphens and underscores): \<^verbatim>\<open>#id\<close> selects
  the first element with that id, and a bare identifier is a type selector, selecting the
  first element with that tag name, whatever the case of the letters. The elements of
  the page have no class and are not nested, so a compound selector such as \<^verbatim>\<open>#a.b\<close>
  selects nothing. A string that is not a selector at all, such as \<^verbatim>\<open>#1a\<close>, makes
  \<^verbatim>\<open>d3.select\<close> throw a \<^verbatim>\<open>SyntaxError\<close>; the result \<open>None\<close> does not tell this case
  apart, and no example below uses such a string.
\<close>

definition ident_start :: "char \<Rightarrow> bool" where
  "ident_start c =
     (c \<in> set ''abcdefghijklmnopqrstuvwxyzABCDEFGHIJKLMNOPQRSTUVWXYZ_'')"

definition ident_char :: "char \<Rightarrow> bool" where
  "ident_char c = (ident_start c \<or> c \<in> set ''0123456789-'')"

fun css_ident :: "string \<Rightarrow> bool" where
  "css_ident [] = False"
| "css_ident (c # cs) = (ident_start c \<and> list_all ident_char cs)"

definition lower_char :: "char \<Rightarrow> char" where
  "lower_char c =
     (case map_of (zip ''ABCDEFGHIJKLMNOPQRSTUVWXYZ'' ''abcdefghijklmnopqrstuvwxyz'') c of
        None \<Rightarrow> c
      | Some l \<Rightarrow> l)"

fun first_index :: "('a \<Rightarrow> bool) \<Rightarrow> 'a list \<Rightarrow> nat \<Rightarrow> nat option" where
  "first_index p [] k = None"
| "first_index p (x # xs) k = (if p x then Some k else first_index p xs (k + 1))"

definition querySelector :: "('d, 'c) document \<Rightarrow> string \<Rightarrow> nat option" where
  "querySelector doc sel =
     (if take 1 sel = ''#'' \<and> css_ident (drop 1 sel)
      then first_index (\<lambda>e. elem_id e = drop 1 sel) doc 0
      else if css_ident sel
      then first_index (\<lambda>e. map lower_char (tagName e) = map lower_char sel) doc 0
      else None)"

definition browser :: "(jsnum, 'c) host" where
  "browser = \<lparr>ToNumber = (\<lambda>x. x), d3_select = querySelector\<rparr>"

definition names :: "(string, 'c) host" where
  "names = \<lparr>ToNumber = (\<lambda>s. NaN), d3_select = querySelector\<rparr>"

definition div_legend :: "int \<Rightarrow> int \<Rightarrow> ('d, 'c) element" where
  "div_legend w h =
     \<lparr>elem_id = ''legend'', tagName = ''div'', offsetWidth = w, offsetHeight = h,
      childNodes = []\<rparr>"

definition abc :: "(string, string) scale" where
  "abc = \<lparr>domain = [''A'', ''B'', ''C''], range_scale = [''red'', ''green'', ''blue''],
     call = (\<lambda>x. ''black'')\<rparr>"

text \<open>A linear scale on the domain 10 to 110 whose color at \<open>x\<close> is \<open>x\<close> itself.\<close>

definition ramp :: "(jsnum, jsnum) scale" where
  "ramp = \<lparr>domain = [Fin 10, Fin 110], range_scale = [Fin 0, Fin 100], call = (\<lambda>x. x)\<rparr>"

text \<open>A quantile scale with a single color on the domain 0 to 10.\<close>

definition single :: "(jsnum, string) scale" where
  "single = \<lparr>domain = [Fin 0, Fin 10], range_scale = [''red''], call = (\<lambda>x. ''red'')\<rparr>"

definition quartiles :: "(jsnum, string) scale" where
  "quartiles = \<lparr>domain = [Fin 1, Fin 5, Fin 7], range_scale = [''a'', ''b'', ''c'', ''d''],
     call = (\<lambda>x. ''a'')\<rparr>"

text \<open>Options objects with one field set.\<close>

definition four :: "options option" where
  "four = Some (no_options\<lparr>linearBoxes := Some 4\<rparr>)"

definition one_box :: "options option" where
  "one_box = Some (no_options\<lparr>linearBoxes := Some 1\<rparr>)"

definition filled :: "options option" where
  "filled = Some (no_options\<lparr>fill := Some True\<rparr>)"


section \<open>The loops and the structure of the appended legend\<close>

lemmas js_arith = plus_jsnum_def minus_jsnum_def times_jsnum_def divide_jsnum_def
  js_of_nat_def js_of_int_def

lemma found_scaleTypes:
  "found scaleTypes type \<longleftrightarrow> type = ''linear'' \<or> type = ''quantile'' \<or> type = ''ordinal''"
  by (auto simp: scaleTypes_def)

lemma ordinal_loop_eq:
  "ordinal_loop ds rs i colors = colors @ map (\<lambda>j. js_index rs (int j)) [i ..< length ds]"
proof (induction ds rs i colors rule: ordinal_loop.induct)
  case (1 ds rs i colors)
  show ?case
  proof (cases "i < length ds")
    case True
    with "1" show ?thesis
      by (subst ordinal_loop.simps) (simp add: upt_conv_Cons)
  next
    case False
    then show ?thesis by (subst ordinal_loop.simps) simp
  qed
qed

lemma linear_loop_eq:
  "linear_loop f mn mx lb i colors =
     colors @ map (\<lambda>j. Some (f (js_of_nat j * ((mx - mn) / js_of_int lb)))) [i ..< nat lb]"
proof (induction f mn mx lb i colors rule: linear_loop.induct)
  case (1 f mn mx lb i colors)
  show ?case
  proof (cases "int i < lb")
    case True
    then have "i < nat lb" by simp
    with "1" True show ?thesis
      by (subst linear_loop.simps) (simp add: upt_conv_Cons)
  next
    case False
    then have "\<not> i < nat lb" by simp
    with False show ?thesis by (subst linear_loop.simps) simp
  qed
qed

text \<open>Evaluating the rounding on numerals.\<close>

lemma floor_numeral_divide:
  "\<lfloor>numeral a / numeral b :: rat\<rfloor> = numeral a div numeral b"
  by (metis floor_divide_of_int_eq of_int_numeral)

lemma ceiling_numeral_divide:
  "\<lceil>numeral a / numeral b :: rat\<rceil> = - (- numeral a div numeral b)"
  by (metis ceiling_divide_eq_div of_int_numeral)

lemmas binary64_eval = binary64_def binary64_pos_def floor_log2_def bits.simps pow2_def
  round_half_even_def Let_def floor_numeral_divide ceiling_numeral_divide

lemma colors_ordinal:
  "colors_of conv scale ''ordinal'' lb =
     map (\<lambda>j. js_index (range_scale scale) (int j)) [0 ..< length (domain scale)]"
  by (simp add: colors_of_def ordinal_loop_eq)

lemma colors_quantile:
  "colors_of conv scale ''quantile'' lb = map Some (range_scale scale)"
  by (simp add: colors_of_def)

lemma colors_linear:
  "colors_of conv scale ''linear'' lb =
     map (\<lambda>j. Some (call scale (js_of_nat j *
            ((to_number conv (js_index (domain scale) (int (length (domain scale)) - 1))
              - to_number conv (js_index (domain scale) 0)) / js_of_int lb))))
       [0 ..< nat lb]"
  by (simp add: colors_of_def linear_loop_eq Let_def)

lemma filter_boxes:
  "filter (\<lambda>n. tag n = ''g'') (legendBoxes type ds colors bw bh @ title_node ttl n bw bh)
     = legendBoxes type ds colors bw bh"
  by (simp add: legendBoxes_def title_node_def filter_map comp_def split: option.split)

lemma filter_titles:
  "filter (\<lambda>n. tag n = ''text'') (legendBoxes type ds colors bw bh @ title_node ttl n bw bh)
     = title_node ttl n bw bh"
  by (simp add: legendBoxes_def title_node_def filter_map comp_def split: option.split)


lemma call_result:
  fixes env :: "('d, 'c) host" and scale :: "('d, 'c) scale" and type :: string
    and options :: "options option" and el :: "('d, 'c) element"
  defines "opts \<equiv> or_empty options"
  defines "colors \<equiv> colors_of (ToNumber env) scale type (or_integer (linearBoxes opts) 9)"
  assumes ok: "found scaleTypes type" "htmlElement doc target = Some el"
    "d3_select env doc target = Some k" "k < length doc"
  shows "colorlegend env doc target scale type options =
    (Inr (), doc[k := (doc ! k)\<lparr>childNodes := childNodes (doc ! k) @
       [legend (js_of_int (offsetWidth el)) (js_of_int (offsetHeight el))
         (legendBoxes type (domain scale) colors
            (fit_boxWidth (or_false (fill opts)) (js_of_int (offsetWidth el))
               (or_number (boxWidth opts) 20) (boxSpacing type) (length colors))
            (fit_boxHeight (or_false (fill opts)) (js_of_int (offsetHeight el))
               (or_number (boxHeight opts) 20) (titlePadding (or_null (title opts))))
          @ title_node (or_null (title opts)) (length colors)
              (fit_boxWidth (or_false (fill opts)) (js_of_int (offsetWidth el))
                 (or_number (boxWidth opts) 20) (boxSpacing type) (length colors))
              (fit_boxHeight (or_false (fill opts)) (js_of_int (offsetHeight el))
                 (or_number (boxHeight opts) 20) (titlePadding (or_null (title opts)))))]\<rparr>])"
  using ok unfolding opts_def colors_def by (simp add: colorlegend_def Let_def d3_append_def)

lemma call_content:
  fixes env :: "('d, 'c) host" and scale :: "('d, 'c) scale" and type :: string
    and options :: "options option" and el :: "('d, 'c) element"
  defines "opts \<equiv> or_empty options"
  defines "colors \<equiv> colors_of (ToNumber env) scale type (or_integer (linearBoxes opts) 9)"
  defines "W \<equiv> fit_boxWidth (or_false (fill opts)) (js_of_int (offsetWidth el))
               (or_number (boxWidth opts) 20) (boxSpacing type) (length colors)"
  defines "H \<equiv> fit_boxHeight (or_false (fill opts)) (js_of_int (offsetHeight el))
               (or_number (boxHeight opts) 20) (titlePadding (or_null (title opts)))"
  assumes ok: "found scaleTypes type" "htmlElement doc target = Some el"
    "d3_select env doc target = Some k" "k < length doc"
  shows "legend_content (snd (colorlegend env doc target scale type options)) k =
     legendBoxes type (domain scale) colors W H @ title_node (or_null (title opts)) (length colors) W H"
  unfolding opts_def colors_def W_def H_def
  by (simp add: call_result [OF ok] legend_content_def appended_def legend_def ok(4))


lemma call_boxes:
  fixes env :: "('d, 'c) host" and scale :: "('d, 'c) scale" and type :: string
    and options :: "options option" and el :: "('d, 'c) element"
  defines "opts \<equiv> or_empty options"
  defines "colors \<equiv> colors_of (ToNumber env) scale type (or_integer (linearBoxes opts) 9)"
  defines "W \<equiv> fit_boxWidth (or_false (fill opts)) (js_of_int (offsetWidth el))
               (or_number (boxWidth opts) 20) (boxSpacing type) (length colors)"
  defines "H \<equiv> fit_boxHeight (or_false (fill opts)) (js_of_int (offsetHeight el))
               (or_number (boxHeight opts) 20) (titlePadding (or_null (title opts)))"
  assumes ok: "found scaleTypes type" "htmlElement doc target = Some el"
    "d3_select env doc target = Some k" "k < length doc"
  shows "legend_boxes (snd (colorlegend env doc target scale type options)) k =
     legendBoxes type (domain scale) colors W H"
  unfolding opts_def colors_def W_def H_def legend_boxes_def
  by (simp only: call_content [OF ok] filter_boxes)

lemma call_titles:
  fixes env :: "('d, 'c) host" and scale :: "('d, 'c) scale" and type :: string
    and options :: "options option" and el :: "('d, 'c) element"
  defines "opts \<equiv> or_empty options"
  defines "colors \<equiv> colors_of (ToNumber env) scale type (or_integer (linearBoxes opts) 9)"
  defines "W \<equiv> fit_boxWidth (or_false (fill opts)) (js_of_int (offsetWidth el))
               (or_number (boxWidth opts) 20) (boxSpacing type) (length colors)"
  defines "H \<equiv> fit_boxHeight (or_false (fill opts)) (js_of_int (offsetHeight el))
               (or_number (boxHeight opts) 20) (titlePadding (or_null (title opts)))"
  assumes ok: "found scaleTypes type" "htmlElement doc target = Some el"
    "d3_select env doc target = Some k" "k < length doc"
  shows "legend_titles (snd (colorlegend env doc target scale type options)) k =
     title_node (or_null (title opts)) (length colors) W H"
  unfolding opts_def colors_def W_def H_def legend_titles_def
  by (simp only: call_content [OF ok] filter_titles)

lemma length_legendBoxes: "length (legendBoxes type ds colors bw bh) = length colors"
  by (simp add: legendBoxes_def)

lemma label_legendBoxes:
  "i < length colors \<Longrightarrow>
     box_label (legendBoxes type ds colors bw bh ! i) = label_node type ds bw bh (length colors) i"
  by (simp add: legendBoxes_def box_label_def)

lemma rect_legendBoxes:
  "i < length colors \<Longrightarrow>
     box_rect (legendBoxes type ds colors bw bh ! i) = rect_node type colors bw bh i"
  by (simp add: legendBoxes_def box_rect_def)

lemma fit_boxWidth_Fin:
  "0 < n \<Longrightarrow> fit_boxWidth fl (js_of_int w) bw sp n =
     Fin (if fl \<or> of_int w < (bw + sp) * of_nat n + 4 + 4
          then (of_int w - 4 - 4 - sp * of_nat n) / of_nat n else bw)"
  by (simp add: fit_boxWidth_def js_arith padding_def)

lemma fit_boxHeight_Fin:
  "fit_boxHeight fl (js_of_int h) bh tp =
     Fin (if fl \<or> of_int h < bh + 2 + 10 + tp then of_int h - 2 - 10 - tp else bh)"
  by (simp add: fit_boxHeight_def js_arith padding_def)

lemma add_Fin_0: "x + Fin 0 = x"
  by (cases x) (simp_all add: js_arith)


lemma titlePadding_or_null:
  "titlePadding (or_null t) = (case t of None \<Rightarrow> 0 | Some s \<Rightarrow> if s = [] then 0 else 11)"
  by (simp add: titlePadding_def or_null_def split: option.split)

text \<open>
  The example page: its element is found by id and selected by \<^verbatim>\<open>#legend\<close>. More
  generally, whenever the script finds an element for a target \<^verbatim>\<open>#id\<close> whose id is a plain
  identifier, the selector \<^verbatim>\<open>#id\<close> selects that same element.
\<close>

lemma css_ident_legend: "css_ident ''legend''"
  by (simp add: ident_start_def ident_char_def)

lemma page_target:
  "htmlElement [div_legend w h] ''#legend'' = Some (div_legend w h)"
  by (simp add: htmlElement_def div_legend_def)

lemma querySelector_page: "querySelector [div_legend w h] ''#legend'' = Some 0"
  using css_ident_legend by (simp add: querySelector_def div_legend_def)

lemma page_select_names:
  "d3_select names [div_legend w h] ''#legend'' = Some 0"
  by (simp add: names_def querySelector_page)

lemma page_select_browser:
  "d3_select browser [div_legend w h] ''#legend'' = Some 0"
  by (simp add: browser_def querySelector_page)

lemma page_length: "0 < length [div_legend w h]"
  by simp

lemma getElementById_first_index:
  "i \<noteq> [] \<Longrightarrow> getElementById doc i = Some el \<Longrightarrow>
     \<exists>k. first_index (\<lambda>e. elem_id e = i) doc j = Some (j + k) \<and>
         k < length doc \<and> doc ! k = el"
proof (induction doc arbitrary: j)
  case Nil
  then show ?case by simp
next
  case (Cons e es)
  show ?case
  proof (cases "elem_id e = i")
    case True
    with Cons.prems have "e = el" by simp
    with True show ?thesis by (intro exI [of _ 0]) simp
  next
    case False
    with Cons.prems have "getElementById es i = Some el" by auto
    from Cons.IH [OF Cons.prems(1) this, of "j + 1"] obtain k where
      "first_index (\<lambda>e. elem_id e = i) es (j + 1) = Some (j + 1 + k)"
      "k < length es" "es ! k = el" by blast
    with False show ?thesis by (intro exI [of _ "Suc k"]) auto
  qed
qed

lemma hash_target_selected:
  assumes "css_ident i" and "htmlElement doc (CHR ''#'' # i) = Some el"
  shows "\<exists>k. querySelector doc (CHR ''#'' # i) = Some k \<and> k < length doc \<and> doc ! k = el"
proof -
  from assms(1) have ne: "i \<noteq> []" by auto
  from assms(2) have "getElementById doc i = Some el" by (simp add: htmlElement_def)
  from getElementById_first_index [OF ne this, of 0] assms(1) show ?thesis
    by (simp add: querySelector_def)
qed

section \<open>Properties of \<^verbatim>\<open>colorlegend\<close>\<close>

text \<open>
  In the statements below a call \<^emph>\<open>renders into\<close> element \<open>k\<close> of the page when the
  script finds an element for the target (\<open>htmlElement doc target = Some el\<close>, from which
  it reads the width and the height) and \<^verbatim>\<open>d3.select(target)\<close> selects element \<open>k\<close>.
  The numbers of the statements are those of the exact arithmetic of the embedding; a
  position or a size is given by the expression with which the script computes it.
\<close>

subsection \<open>C1: an unsupported scale type\<close>

text \<open>
  C1. For every \<open>type\<close> other than linear, quantile and ordinal the call throws the error
  \<^verbatim>\<open>Scale type, <type>, is not suported.\<close> and leaves the page as it was: nothing is
  appended before the check fails.
\<close>

theorem unsupported_type_throws:
  "type \<notin> {''linear'', ''quantile'', ''ordinal''} \<Longrightarrow>
     colorlegend env doc target scale type options = (Inl (UnsupportedScaleType type), doc)"
  by (simp add: colorlegend_def found_scaleTypes)

theorem unsupported_type_throws_witness:
  "''quantize'' \<notin> {''linear'', ''quantile'', ''ordinal''} \<and>
   colorlegend browser [div_legend 300 40] ''#legend'' single ''quantize'' None
     = (Inl (Error ''Scale type, quantize, is not suported.''), [div_legend 300 40])"
  using unsupported_type_throws [of "''quantize''" browser "[div_legend 300 40]" "''#legend''" single None]
  by (simp add: UnsupportedScaleType_def)

subsection \<open>C2: the colors of a linear scale\<close>

text \<open>
  C2, as amended. A linear call that renders into element \<open>k\<close> appends exactly \<open>lb\<close>
  boxes, where \<open>lb\<close> is the option \<^verbatim>\<open>linearBoxes\<close>, or 9 when it is not set (and no box
  when \<open>lb\<close> is negative). Box \<open>i\<close> is filled with \<open>scale (i * ((max - min) / lb))\<close>, the
  quotient taken first as line 93 groups it, where \<open>min\<close> is the first and \<open>max\<close> the last
  domain value: the samples start at 0, not at \<open>min\<close>.
\<close>

theorem linear_colors:
  fixes env :: "('d, 'c) host" and scale :: "('d, 'c) scale" and doc :: "('d, 'c) document"
    and target :: string and options :: "options option" and k :: nat
  defines "boxes \<equiv> legend_boxes (snd (colorlegend env doc target scale ''linear'' options)) k"
  defines "lb \<equiv> or_integer (linearBoxes (or_empty options)) 9"
  defines "mn \<equiv> to_number (ToNumber env) (js_index (domain scale) 0)"
  defines "mx \<equiv> to_number (ToNumber env)
                   (js_index (domain scale) (int (length (domain scale)) - 1))"
  assumes ok: "htmlElement doc target = Some el" "d3_select env doc target = Some k"
    "k < length doc"
  shows "length boxes = nat lb \<and>
         (linearBoxes (or_empty options) = None \<longrightarrow> length boxes = 9) \<and>
         (\<forall>i < length boxes.
            style (box_rect (boxes ! i)) ''fill''
              = Some (Col (call scale (js_of_nat i * ((mx - mn) / js_of_int lb)))))"
proof -
  have f: "found scaleTypes ''linear''" by (simp add: scaleTypes_def)
  have len: "length boxes = nat lb"
    unfolding boxes_def lb_def
    by (simp add: call_boxes [OF f ok] length_legendBoxes colors_linear)
  have nine: "linearBoxes (or_empty options) = None \<longrightarrow> length boxes = 9"
    using len by (auto simp: lb_def or_integer_def)
  have fills: "\<forall>i < length boxes.
            style (box_rect (boxes ! i)) ''fill''
              = Some (Col (call scale (js_of_nat i * ((mx - mn) / js_of_int lb))))"
    unfolding boxes_def lb_def mn_def mx_def
    by (simp add: call_boxes [OF f ok] length_legendBoxes rect_legendBoxes colors_linear
        rect_node_def style_def opt_val_def)
  from len nine fills show ?thesis by blast
qed

text \<open>
  On the domain 10 to 110 with four boxes, the last box has the color of 75, not of 85.
\<close>

theorem linear_colors_witness:
  "htmlElement [div_legend 300 40 :: (jsnum, jsnum) element] ''#legend''
     = Some (div_legend 300 40) \<and>
   d3_select browser [div_legend 300 40 :: (jsnum, jsnum) element] ''#legend'' = Some 0 \<and>
   0 < length [div_legend 300 40 :: (jsnum, jsnum) element] \<and>
   length (legend_boxes (snd (colorlegend browser [div_legend 300 40] ''#legend'' ramp
             ''linear'' four)) 0) = 4 \<and>
   style (box_rect (legend_boxes (snd (colorlegend browser [div_legend 300 40] ''#legend'' ramp
             ''linear'' four)) 0 ! 3)) ''fill'' = Some (Col (Fin 75))"
proof -
  let ?boxes = "legend_boxes (snd (colorlegend browser
     [div_legend 300 40 :: (jsnum, jsnum) element] ''#legend'' ramp ''linear'' four)) 0"
  have lb: "or_integer (linearBoxes (or_empty four)) 9 = 4"
    by (simp add: four_def or_empty_def or_integer_def no_options_def)
  note inst = linear_colors [where scale = ramp and options = four,
      OF page_target [of 300 40] page_select_browser [of 300 40]
      page_length [of 300 40]]
  from inst have len: "length ?boxes = 4" by (simp add: lb)
  with inst have "style (box_rect (?boxes ! 3)) ''fill'' = Some (Col (Fin 75))"
    by (simp add: lb ramp_def browser_def to_number_def js_index_def js_arith)
  with len show ?thesis
    by (simp add: page_target page_select_browser)
qed

text \<open>
  C2 as stated takes the sample at \<^verbatim>\<open>i * (max - min) / linearBoxes\<close>. The exact
  arithmetic of the embedding does not tell this from the expression of line 93, but
  the arithmetic of JavaScript does. In the call without options on the domain 10 to
  110 (nine boxes), box 3 is sampled at \<open>3 * (100 / 9)\<close>, which in binary64 is
  33.33333333333333, while \<open>(3 * 100) / 9\<close> is 33.333333333333336, the next binary64
  number.
\<close>

theorem linear_grouping_counterexample:
  "line93_binary64 3 (Fin 10) (Fin 110) 9 = Fin (2345624805922133 / 70368744177664) \<and>
   regrouped_binary64 3 (Fin 10) (Fin 110) 9 = Fin (4691249611844267 / 140737488355328) \<and>
   line93_binary64 3 (Fin 10) (Fin 110) 9 \<noteq> regrouped_binary64 3 (Fin 10) (Fin 110) 9"
proof -
  have d: "binary64 100 = Fin 100" by (simp add: binary64_eval)
  have q: "binary64 (100 / 9) = Fin (3127499741229511 / 281474976710656)"
    by (simp add: binary64_eval)
  have a: "binary64 (3 * (3127499741229511 / 281474976710656))
             = Fin (2345624805922133 / 70368744177664)"
    by (simp add: binary64_eval)
  have t: "binary64 300 = Fin 300" by (simp add: binary64_eval)
  have b: "binary64 (300 / 9) = Fin (4691249611844267 / 140737488355328)"
    by (simp add: binary64_eval)
  have 1: "line93_binary64 3 (Fin 10) (Fin 110) 9 = Fin (2345624805922133 / 70368744177664)"
    using a by (simp add: line93_binary64_def js_arith d q)
  have 2: "regrouped_binary64 3 (Fin 10) (Fin 110) 9
             = Fin (4691249611844267 / 140737488355328)"
    using b by (simp add: regrouped_binary64_def js_arith d t)
  show ?thesis unfolding 1 2 by simp
qed

subsection \<open>C3: the boxes of an ordinal scale\<close>

text \<open>
  C3. An ordinal call that renders into element \<open>k\<close> appends one box for each domain
  entry; box \<open>i\<close> is filled with \<^verbatim>\<open>range[i]\<close>, its label has the text \<^verbatim>\<open>domain[i]\<close> and
  the anchor \<^verbatim>\<open>start\<close>, and with \<open>W\<close> the width of the boxes, box \<open>i\<close> starts at
  \<open>i * (W + 3)\<close>: consecutive boxes are 3 pixels apart.
\<close>

theorem ordinal_boxes:
  fixes env :: "('d, 'c) host" and scale :: "('d, 'c) scale" and doc :: "('d, 'c) document"
    and target :: string and options :: "options option" and k :: nat
  defines "boxes \<equiv> legend_boxes (snd (colorlegend env doc target scale ''ordinal'' options)) k"
  assumes ok: "htmlElement doc target = Some el" "d3_select env doc target = Some k"
    "k < length doc"
  shows "\<exists>W. length boxes = length (domain scale) \<and>
         (\<forall>i < length (domain scale).
            style (box_rect (boxes ! i)) ''fill''
              = Some (opt_val Col (js_index (range_scale scale) (int i))) \<and>
            text_content (box_label (boxes ! i)) = Dom (domain scale ! i) \<and>
            style (box_label (boxes ! i)) ''text-anchor'' = Some (Str ''start'') \<and>
            attr (box_rect (boxes ! i)) ''width'' = Some (Num W) \<and>
            attr (box_rect (boxes ! i)) ''x'' = Some (Num (js_of_nat i * (W + Fin 3))))"
proof -
  have f: "found scaleTypes ''ordinal''" by (simp add: scaleTypes_def)
  let ?W = "fit_boxWidth (or_false (fill (or_empty options))) (js_of_int (offsetWidth el))
     (or_number (boxWidth (or_empty options)) 20) 3 (length (domain scale))"
  show ?thesis
    unfolding boxes_def
    by (rule exI [of _ ?W])
      (simp add: call_boxes [OF f ok] length_legendBoxes label_legendBoxes
        rect_legendBoxes colors_ordinal label_node_def rect_node_def style_def attr_def
        label_text_def js_index_def opt_val_def boxSpacing_def)
qed

theorem ordinal_boxes_witness:
  "htmlElement [div_legend 100 40 :: (string, string) element] ''#legend''
     = Some (div_legend 100 40) \<and>
   d3_select names [div_legend 100 40 :: (string, string) element] ''#legend'' = Some 0 \<and>
   0 < length [div_legend 100 40 :: (string, string) element] \<and>
   (\<exists>W. length (legend_boxes (snd (colorlegend names [div_legend 100 40] ''#legend'' abc
                 ''ordinal'' None)) 0) = 3 \<and>
     style (box_rect (legend_boxes (snd (colorlegend names [div_legend 100 40] ''#legend'' abc
                 ''ordinal'' None)) 0 ! 2)) ''fill'' = Some (Col ''blue'') \<and>
     text_content (box_label (legend_boxes (snd (colorlegend names [div_legend 100 40]
                 ''#legend'' abc ''ordinal'' None)) 0 ! 2)) = Dom ''C'' \<and>
     style (box_label (legend_boxes (snd (colorlegend names [div_legend 100 40] ''#legend'' abc
                 ''ordinal'' None)) 0 ! 2)) ''text-anchor'' = Some (Str ''start'') \<and>
     attr (box_rect (legend_boxes (snd (colorlegend names [div_legend 100 40] ''#legend'' abc
                 ''ordinal'' None)) 0 ! 2)) ''width'' = Some (Num W) \<and>
     attr (box_rect (legend_boxes (snd (colorlegend names [div_legend 100 40] ''#legend'' abc
                 ''ordinal'' None)) 0 ! 2)) ''x'' = Some (Num (js_of_nat 2 * (W + Fin 3))))"
proof -
  let ?boxes = "legend_boxes (snd (colorlegend names
     [div_legend 100 40 :: (string, string) element] ''#legend'' abc ''ordinal'' None)) 0"
  obtain W where len: "length ?boxes = length (domain abc)"
    and all: "\<forall>i < length (domain abc).
        style (box_rect (?boxes ! i)) ''fill''
          = Some (opt_val Col (js_index (range_scale abc) (int i))) \<and>
        text_content (box_label (?boxes ! i)) = Dom (domain abc ! i) \<and>
        style (box_label (?boxes ! i)) ''text-anchor'' = Some (Str ''start'') \<and>
        attr (box_rect (?boxes ! i)) ''width'' = Some (Num W) \<and>
        attr (box_rect (?boxes ! i)) ''x'' = Some (Num (js_of_nat i * (W + Fin 3)))"
    using ordinal_boxes [where scale = abc and options = None, OF page_target page_select_names page_length] by blast
  have "2 < length (domain abc)" by (simp add: abc_def)
  with all have
    "style (box_rect (?boxes ! 2)) ''fill''
          = Some (opt_val Col (js_index (range_scale abc) (int 2))) \<and>
     text_content (box_label (?boxes ! 2)) = Dom (domain abc ! 2) \<and>
     style (box_label (?boxes ! 2)) ''text-anchor'' = Some (Str ''start'') \<and>
     attr (box_rect (?boxes ! 2)) ''width'' = Some (Num W) \<and>
     attr (box_rect (?boxes ! 2)) ''x'' = Some (Num (js_of_nat 2 * (W + Fin 3)))"
    by blast
  with len show ?thesis
    by (simp add: page_target page_select_names abc_def js_index_def opt_val_def)
qed

subsection \<open>C4: the boxes of a quantile scale\<close>

text \<open>
  C4, as amended. A quantile call that renders into element \<open>k\<close> appends one box for
  each entry of the range, box \<open>i\<close> filled with \<^verbatim>\<open>range[i]\<close>. The label of the first box
  has the text \<^verbatim>\<open>domain[0]\<close>; when there are at least two boxes, the label of the last
  one has the text of the last domain value; every other label is empty. The anchor of
  the labels is \<^verbatim>\<open>middle\<close> and box \<open>i\<close> starts at \<open>i * W\<close>, with \<open>W\<close> the width of the
  boxes: there is no space between boxes.
\<close>

theorem quantile_boxes:
  fixes env :: "('d, 'c) host" and scale :: "('d, 'c) scale" and doc :: "('d, 'c) document"
    and target :: string and options :: "options option" and k :: nat
  defines "boxes \<equiv> legend_boxes (snd (colorlegend env doc target scale ''quantile'' options)) k"
  defines "n \<equiv> length (range_scale scale)"
  assumes ok: "htmlElement doc target = Some el" "d3_select env doc target = Some k"
    "k < length doc"
  shows "\<exists>W. length boxes = n \<and>
         (\<forall>i < n.
            style (box_rect (boxes ! i)) ''fill'' = Some (Col (range_scale scale ! i)) \<and>
            text_content (box_label (boxes ! i))
              = opt_val Dom
                  (if i = 0 then js_index (domain scale) 0
                   else if i = n - 1
                     then js_index (domain scale) (int (length (domain scale)) - 1)
                   else None) \<and>
            style (box_label (boxes ! i)) ''text-anchor'' = Some (Str ''middle'') \<and>
            attr (box_rect (boxes ! i)) ''width'' = Some (Num W) \<and>
            attr (box_rect (boxes ! i)) ''x'' = Some (Num (js_of_nat i * W)))"
proof -
  have f: "found scaleTypes ''quantile''" by (simp add: scaleTypes_def)
  let ?W = "fit_boxWidth (or_false (fill (or_empty options))) (js_of_int (offsetWidth el))
     (or_number (boxWidth (or_empty options)) 20) 0 (length (range_scale scale))"
  have last: "\<And>i. i < n \<Longrightarrow> i \<noteq> 0 \<Longrightarrow> (int i = int n - 1) = (i = n - 1)"
    by auto
  show ?thesis
    unfolding boxes_def
    by (rule exI [of _ ?W])
      (simp add: call_boxes [OF f ok] length_legendBoxes label_legendBoxes
        rect_legendBoxes colors_quantile label_node_def rect_node_def style_def attr_def
        label_text_def opt_val_def boxSpacing_def add_Fin_0 n_def last [unfolded n_def])
qed

theorem quantile_boxes_witness:
  "htmlElement [div_legend 300 40 :: (jsnum, string) element] ''#legend''
     = Some (div_legend 300 40) \<and>
   d3_select browser [div_legend 300 40 :: (jsnum, string) element] ''#legend'' = Some 0 \<and>
   0 < length [div_legend 300 40 :: (jsnum, string) element] \<and>
   length (legend_boxes (snd (colorlegend browser [div_legend 300 40] ''#legend'' quartiles
             ''quantile'' None)) 0) = 4 \<and>
   map (\<lambda>i. text_content (box_label (legend_boxes (snd (colorlegend browser
             [div_legend 300 40] ''#legend'' quartiles ''quantile'' None)) 0 ! i))) [0, 1, 2, 3]
     = [Dom (Fin 1), Undefined, Undefined, Dom (Fin 7)] \<and>
   style (box_rect (legend_boxes (snd (colorlegend browser [div_legend 300 40] ''#legend''
             quartiles ''quantile'' None)) 0 ! 3)) ''fill'' = Some (Col ''d'')"
proof -
  let ?boxes = "legend_boxes (snd (colorlegend browser
     [div_legend 300 40 :: (jsnum, string) element] ''#legend'' quartiles ''quantile'' None)) 0"
  obtain W where len: "length ?boxes = length (range_scale quartiles)"
    and all: "\<forall>i < length (range_scale quartiles).
        style (box_rect (?boxes ! i)) ''fill'' = Some (Col (range_scale quartiles ! i)) \<and>
        text_content (box_label (?boxes ! i))
          = opt_val Dom
              (if i = 0 then js_index (domain quartiles) 0
               else if i = length (range_scale quartiles) - 1
                 then js_index (domain quartiles) (int (length (domain quartiles)) - 1)
               else None) \<and>
        style (box_label (?boxes ! i)) ''text-anchor'' = Some (Str ''middle'') \<and>
        attr (box_rect (?boxes ! i)) ''width'' = Some (Num W) \<and>
        attr (box_rect (?boxes ! i)) ''x'' = Some (Num (js_of_nat i * W))"
    using quantile_boxes [where scale = quartiles and options = None,
        OF page_target [of 300 40] page_select_browser [of 300 40] page_length [of 300 40]]
    by blast
  have n: "length (range_scale quartiles) = 4" by (simp add: quartiles_def)
  from all n have
    "text_content (box_label (?boxes ! 0)) = Dom (Fin 1)"
    "text_content (box_label (?boxes ! 1)) = Undefined"
    "text_content (box_label (?boxes ! 2)) = Undefined"
    "text_content (box_label (?boxes ! 3)) = Dom (Fin 7)"
    "style (box_rect (?boxes ! 3)) ''fill'' = Some (Col ''d'')"
    by (simp_all add: quartiles_def js_index_def opt_val_def)
  with len n show ?thesis
    by (simp add: page_target page_select_browser)
qed

text \<open>
  C4 as stated gives the last box the text of the last domain value. With a range of a
  single color the last box is the first one, and its label is \<^verbatim>\<open>domain[0]\<close>: on the
  domain 0 to 10 it reads 0, not 10.
\<close>

theorem quantile_single_box_counterexample:
  "length (legend_boxes (snd (colorlegend browser [div_legend 300 40] ''#legend'' single
             ''quantile'' None)) 0) = 1 \<and>
   text_content (box_label (last (legend_boxes (snd (colorlegend browser [div_legend 300 40]
             ''#legend'' single ''quantile'' None)) 0))) = Dom (Fin 0) \<and>
   js_index (domain single) (int (length (domain single)) - 1) = Some (Fin 10) \<and>
   text_content (box_label (last (legend_boxes (snd (colorlegend browser [div_legend 300 40]
             ''#legend'' single ''quantile'' None)) 0)))
     \<noteq> opt_val Dom (js_index (domain single) (int (length (domain single)) - 1))"
proof -
  have f: "found scaleTypes ''quantile''" by (simp add: scaleTypes_def)
  show ?thesis
    by (simp add: call_boxes [OF f page_target page_select_browser page_length]
        colors_quantile single_def legendBoxes_def box_label_def label_node_def
        label_text_def js_index_def opt_val_def)
qed

subsection \<open>C5: the effective size of the boxes\<close>

text \<open>
  C5. In a call that renders into element \<open>k\<close>, with \<open>n\<close> boxes, \<open>w\<close> and \<open>h\<close> the
  width and height of the target, the spacing 3 for ordinal and 0 otherwise, the title
  padding 11 with a title and 0 without, and \<open>bw\<close>, \<open>bh\<close> the requested sizes: the
  width of every box is \<open>(w - 4 - 4 - spacing * n) / n\<close> if \<open>fill\<close> is set or
  \<open>w < (bw + spacing) * n + 4 + 4\<close>, and \<open>bw\<close> otherwise; independently, its height is
  \<open>h - 2 - 10 - titlePad\<close> if \<open>fill\<close> is set or \<open>h < bh + 2 + 10 + titlePad\<close>, and \<open>bh\<close>
  otherwise.
\<close>

theorem effective_box_size:
  fixes env :: "('d, 'c) host" and scale :: "('d, 'c) scale" and doc :: "('d, 'c) document"
    and target :: string and type :: string and options :: "options option" and k :: nat
    and el :: "('d, 'c) element"
  defines "boxes \<equiv> legend_boxes (snd (colorlegend env doc target scale type options)) k"
  defines "opts \<equiv> or_empty options"
  defines "n \<equiv> rat_of_nat (length boxes)"
  defines "w \<equiv> rat_of_int (offsetWidth el)"
  defines "h \<equiv> rat_of_int (offsetHeight el)"
  defines "spacing \<equiv> (if type = ''ordinal'' then 3 else 0)"
  defines "titlePad \<equiv> (case title opts of None \<Rightarrow> 0 | Some t \<Rightarrow> if t = [] then 0 else 11)"
  defines "bw \<equiv> or_number (boxWidth opts) 20"
  defines "bh \<equiv> or_number (boxHeight opts) 20"
  assumes valid: "type \<in> {''linear'', ''quantile'', ''ordinal''}"
    and ok: "htmlElement doc target = Some el" "d3_select env doc target = Some k"
      "k < length doc"
  shows "\<forall>i < length boxes.
           attr (box_rect (boxes ! i)) ''width''
             = Some (Num (Fin (if or_false (fill opts) \<or> w < (bw + spacing) * n + 4 + 4
                               then (w - 4 - 4 - spacing * n) / n else bw))) \<and>
           attr (box_rect (boxes ! i)) ''height''
             = Some (Num (Fin (if or_false (fill opts) \<or> h < bh + 2 + 10 + titlePad
                               then h - 2 - 10 - titlePad else bh)))"
proof -
  have f: "found scaleTypes type" using valid by (simp add: found_scaleTypes)
  let ?colors = "colors_of (ToNumber env) scale type (or_integer (linearBoxes opts) 9)"
  let ?W = "fit_boxWidth (or_false (fill opts)) (js_of_int (offsetWidth el)) bw
              (boxSpacing type) (length ?colors)"
  let ?H = "fit_boxHeight (or_false (fill opts)) (js_of_int (offsetHeight el)) bh
              (titlePadding (or_null (title opts)))"
  have boxes: "boxes = legendBoxes type (domain scale) ?colors ?W ?H"
    unfolding boxes_def opts_def bw_def bh_def by (rule call_boxes [OF f ok])
  then have len: "length boxes = length ?colors" by (simp add: length_legendBoxes)
  have H: "?H = Fin (if or_false (fill opts) \<or> h < bh + 2 + 10 + titlePad
                     then h - 2 - 10 - titlePad else bh)"
    unfolding h_def titlePad_def by (simp add: fit_boxHeight_Fin titlePadding_or_null)
  show ?thesis
  proof (intro allI impI)
    fix i assume i: "i < length boxes"
    then have "0 < length ?colors" using len by (cases ?colors) simp_all
    then have W: "?W = Fin (if or_false (fill opts) \<or> w < (bw + spacing) * n + 4 + 4
                            then (w - 4 - 4 - spacing * n) / n else bw)"
      unfolding w_def spacing_def n_def len by (simp add: fit_boxWidth_Fin boxSpacing_def)
    from i len have r: "box_rect (boxes ! i) = rect_node type ?colors ?W ?H i"
      by (simp add: boxes rect_legendBoxes)
    have "attr (rect_node type ?colors ?W ?H i) ''width'' = Some (Num ?W) \<and>
          attr (rect_node type ?colors ?W ?H i) ''height'' = Some (Num ?H)"
      by (simp add: rect_node_def attr_def)
    then show "attr (box_rect (boxes ! i)) ''width''
             = Some (Num (Fin (if or_false (fill opts) \<or> w < (bw + spacing) * n + 4 + 4
                               then (w - 4 - 4 - spacing * n) / n else bw))) \<and>
           attr (box_rect (boxes ! i)) ''height''
             = Some (Num (Fin (if or_false (fill opts) \<or> h < bh + 2 + 10 + titlePad
                               then h - 2 - 10 - titlePad else bh)))"
      unfolding r W H .
  qed
qed

theorem effective_box_size_witness:
  "''ordinal'' \<in> {''linear'', ''quantile'', ''ordinal''} \<and>
   htmlElement [div_legend 50 40 :: (string, string) element] ''#legend''
     = Some (div_legend 50 40) \<and>
   d3_select names [div_legend 50 40 :: (string, string) element] ''#legend'' = Some 0 \<and>
   0 < length [div_legend 50 40 :: (string, string) element] \<and>
   length (legend_boxes (snd (colorlegend names [div_legend 50 40] ''#legend'' abc
             ''ordinal'' None)) 0) = 3 \<and>
   attr (box_rect (legend_boxes (snd (colorlegend names [div_legend 50 40] ''#legend'' abc
             ''ordinal'' None)) 0 ! 0)) ''width'' = Some (Num (Fin 11)) \<and>
   attr (box_rect (legend_boxes (snd (colorlegend names [div_legend 50 40] ''#legend'' abc
             ''ordinal'' None)) 0 ! 0)) ''height'' = Some (Num (Fin 20))"
proof -
  let ?boxes = "legend_boxes (snd (colorlegend names
     [div_legend 50 40 :: (string, string) element] ''#legend'' abc ''ordinal'' None)) 0"
  have v: "''ordinal'' \<in> {''linear'', ''quantile'', ''ordinal''}" by simp
  have f: "found scaleTypes ''ordinal''" by (simp add: scaleTypes_def)
  have len: "length ?boxes = 3"
    by (simp add: call_boxes [OF f page_target page_select_names page_length]
        length_legendBoxes colors_ordinal abc_def)
  note inst = effective_box_size [where scale = abc and options = None, OF v
      page_target [of 50 40] page_select_names [of 50 40] page_length [of 50 40]]
  from inst len have
    "attr (box_rect (?boxes ! 0)) ''width'' = Some (Num (Fin 11)) \<and>
     attr (box_rect (?boxes ! 0)) ''height'' = Some (Num (Fin 20))"
    by (simp add: or_empty_def no_options_def or_false_def or_number_def div_legend_def)
  with len show ?thesis
    by (simp add: page_target page_select_names)
qed

subsection \<open>C6: a filled legend\<close>

text \<open>
  C6, as amended. In a call with \<open>fill\<close> set that renders into element \<open>k\<close>, with \<open>n\<close>
  boxes, every box has the width \<open>(w - 4 - 4 - spacing * n) / n\<close> and the height
  \<open>h - 2 - 10 - titlePad\<close>, and box \<open>i\<close> starts at \<open>i\<close> times the width plus the
  spacing, where the spacing is 3 for ordinal and 0 for linear and quantile scales.
  These are the expressions of lines 100, 103 and 153. The right edge of the last box is
  where they put it, which is not always \<open>w - 4 - 4\<close>: one spacing is reserved after
  every box, the last one too.
\<close>

theorem filled_boxes:
  fixes env :: "('d, 'c) host" and scale :: "('d, 'c) scale" and doc :: "('d, 'c) document"
    and target :: string and type :: string and options :: "options option" and k :: nat
    and el :: "('d, 'c) element"
  defines "boxes \<equiv> legend_boxes (snd (colorlegend env doc target scale type options)) k"
  defines "n \<equiv> rat_of_nat (length boxes)"
  defines "w \<equiv> rat_of_int (offsetWidth el)"
  defines "h \<equiv> rat_of_int (offsetHeight el)"
  defines "spacing \<equiv> (if type = ''ordinal'' then 3 else 0)"
  defines "titlePad \<equiv> (case title (or_empty options) of None \<Rightarrow> 0
                          | Some t \<Rightarrow> if t = [] then 0 else 11)"
  assumes valid: "type \<in> {''linear'', ''quantile'', ''ordinal''}"
    and ok: "htmlElement doc target = Some el" "d3_select env doc target = Some k"
      "k < length doc"
    and filled: "fill (or_empty options) = Some True"
  shows "\<forall>i < length boxes.
           attr (box_rect (boxes ! i)) ''width''
             = Some (Num (Fin ((w - 4 - 4 - spacing * n) / n))) \<and>
           attr (box_rect (boxes ! i)) ''x''
             = Some (Num (Fin (rat_of_nat i * ((w - 4 - 4 - spacing * n) / n + spacing)))) \<and>
           attr (box_rect (boxes ! i)) ''height''
             = Some (Num (Fin (h - 2 - 10 - titlePad)))"
proof -
  have f: "found scaleTypes type" using valid by (simp add: found_scaleTypes)
  let ?colors = "colors_of (ToNumber env) scale type
                   (or_integer (linearBoxes (or_empty options)) 9)"
  let ?bw = "or_number (boxWidth (or_empty options)) 20"
  let ?H = "fit_boxHeight True (js_of_int (offsetHeight el))
              (or_number (boxHeight (or_empty options)) 20)
              (titlePadding (or_null (title (or_empty options))))"
  have fl: "or_false (fill (or_empty options)) = True" by (simp add: filled or_false_def)
  have boxes: "boxes = legendBoxes type (domain scale) ?colors
                 (fit_boxWidth True (js_of_int (offsetWidth el)) ?bw (boxSpacing type)
                    (length ?colors)) ?H"
    unfolding boxes_def using call_boxes [OF f ok, of scale options] by (simp add: fl)
  then have len: "length boxes = length ?colors" by (simp add: length_legendBoxes)
  have sp: "boxSpacing type = spacing" by (simp add: boxSpacing_def spacing_def)
  have H: "?H = Fin (h - 2 - 10 - titlePad)"
    unfolding h_def titlePad_def by (simp add: fit_boxHeight_Fin titlePadding_or_null)
  show ?thesis
  proof (intro allI impI)
    fix i assume i: "i < length boxes"
    then have pos: "0 < length ?colors" using len by (cases ?colors) simp_all
    have W: "fit_boxWidth True (js_of_int (offsetWidth el)) ?bw (boxSpacing type)
               (length ?colors) = Fin ((w - 4 - 4 - spacing * n) / n)"
      unfolding w_def spacing_def n_def len
      by (simp add: fit_boxWidth_Fin [OF pos] boxSpacing_def)
    from i len have r: "box_rect (boxes ! i)
        = rect_node type ?colors (Fin ((w - 4 - 4 - spacing * n) / n))
            (Fin (h - 2 - 10 - titlePad)) i"
      by (simp add: boxes rect_legendBoxes W H)
    show "attr (box_rect (boxes ! i)) ''width''
             = Some (Num (Fin ((w - 4 - 4 - spacing * n) / n))) \<and>
           attr (box_rect (boxes ! i)) ''x''
             = Some (Num (Fin (rat_of_nat i * ((w - 4 - 4 - spacing * n) / n + spacing)))) \<and>
           attr (box_rect (boxes ! i)) ''height''
             = Some (Num (Fin (h - 2 - 10 - titlePad)))"
      unfolding r by (simp add: rect_node_def attr_def js_arith sp)
  qed
qed

text \<open>
  The filled linear legend of nine boxes on a target of 300 by 40: the last box is
  \<open>292 / 9\<close> wide and starts at \<open>8 * (292 / 9)\<close>.
\<close>

theorem filled_boxes_witness:
  "''linear'' \<in> {''linear'', ''quantile'', ''ordinal''} \<and>
   htmlElement [div_legend 300 40 :: (jsnum, jsnum) element] ''#legend''
     = Some (div_legend 300 40) \<and>
   d3_select browser [div_legend 300 40 :: (jsnum, jsnum) element] ''#legend'' = Some 0 \<and>
   0 < length [div_legend 300 40 :: (jsnum, jsnum) element] \<and>
   fill (or_empty filled) = Some True \<and>
   length (legend_boxes (snd (colorlegend browser [div_legend 300 40] ''#legend'' ramp
             ''linear'' filled)) 0) = 9 \<and>
   attr (box_rect (legend_boxes (snd (colorlegend browser [div_legend 300 40]
             ''#legend'' ramp ''linear'' filled)) 0 ! 8)) ''width''
     = Some (Num (Fin (292 / 9))) \<and>
   attr (box_rect (legend_boxes (snd (colorlegend browser [div_legend 300 40]
             ''#legend'' ramp ''linear'' filled)) 0 ! 8)) ''x''
     = Some (Num (Fin (8 * (292 / 9)))) \<and>
   attr (box_rect (legend_boxes (snd (colorlegend browser [div_legend 300 40]
             ''#legend'' ramp ''linear'' filled)) 0 ! 8)) ''height'' = Some (Num (Fin 28))"
proof -
  let ?boxes = "legend_boxes (snd (colorlegend browser
     [div_legend 300 40 :: (jsnum, jsnum) element] ''#legend'' ramp ''linear'' filled)) 0"
  have v: "''linear'' \<in> {''linear'', ''quantile'', ''ordinal''}" by simp
  have f: "found scaleTypes ''linear''" by (simp add: scaleTypes_def)
  have fl: "fill (or_empty filled) = Some True"
    by (simp add: filled_def or_empty_def no_options_def)
  have len: "length ?boxes = 9"
    unfolding call_boxes [OF f page_target page_select_browser page_length]
    by (simp add: length_legendBoxes colors_linear filled_def or_empty_def no_options_def
        or_integer_def)
  note inst = filled_boxes [where scale = ramp and options = filled, OF v
      page_target [of 300 40] page_select_browser [of 300 40] page_length [of 300 40] fl]
  have e1: "rat_of_int (offsetWidth (div_legend 300 40 :: (jsnum, jsnum) element)) = 300"
    by (simp add: div_legend_def)
  have e2: "rat_of_int (offsetHeight (div_legend 300 40 :: (jsnum, jsnum) element)) - 2 - 10
               - (case title (or_empty filled) of None \<Rightarrow> 0
                  | Some t \<Rightarrow> if t = [] then 0 else 11) = 28"
    by (simp add: div_legend_def filled_def or_empty_def no_options_def)
  from inst [unfolded e1 e2 len] have
    "attr (box_rect (?boxes ! 8)) ''width'' = Some (Num (Fin (292 / 9))) \<and>
     attr (box_rect (?boxes ! 8)) ''x'' = Some (Num (Fin (8 * (292 / 9)))) \<and>
     attr (box_rect (?boxes ! 8)) ''height'' = Some (Num (Fin 28))"
    by simp
  with v page_target [of 300 40] page_select_browser [of 300 40] page_length [of 300 40]
    fl len
  show ?thesis by blast
qed

text \<open>
  C6 as stated lets the boxes span \<open>w - 4 - 4\<close> for every scale type. For the ordinal
  scale on a target of width 100, filled, the last of the three boxes starts at
  \<open>184 / 3\<close> and is \<open>83 / 3\<close> wide: the boxes end at 89, not at 92.
\<close>

theorem fill_ordinal_counterexample:
  "attr (box_rect (hd (legend_boxes (snd (colorlegend names [div_legend 100 40] ''#legend'' abc
             ''ordinal'' filled)) 0))) ''x'' = Some (Num (Fin 0)) \<and>
   attr (box_rect (last (legend_boxes (snd (colorlegend names [div_legend 100 40] ''#legend'' abc
             ''ordinal'' filled)) 0))) ''x'' = Some (Num (Fin (184 / 3))) \<and>
   attr (box_rect (last (legend_boxes (snd (colorlegend names [div_legend 100 40] ''#legend'' abc
             ''ordinal'' filled)) 0))) ''width'' = Some (Num (Fin (83 / 3))) \<and>
   (184 / 3 + 83 / 3 :: rat) \<noteq> 100 - 4 - 4"
proof -
  have f: "found scaleTypes ''ordinal''" by (simp add: scaleTypes_def)
  have c: "colors_of (ToNumber names) abc ''ordinal'' lb = [Some ''red'', Some ''green'', Some ''blue'']" for lb
    by (simp add: colors_ordinal abc_def js_index_def upt_rec)
  show ?thesis
    unfolding call_boxes [OF f page_target page_select_names page_length] c
    by (simp add: legendBoxes_def box_rect_def rect_node_def attr_def filled_def or_empty_def
        no_options_def or_false_def or_number_def boxSpacing_def div_legend_def
        fit_boxWidth_def padding_def js_arith upt_rec)
qed

subsection \<open>C7: the title\<close>



subsection \<open>C8: the target\<close>

text \<open>
  C8. The script reads the size of the element with the id of the target, with or
  without a leading \<^verbatim>\<open>#\<close>, and appends to the selection of \<^verbatim>\<open>d3.select(target)\<close>. For a
  target \<^verbatim>\<open>#legend\<close> both are the element with the id \<^verbatim>\<open>legend\<close> (lemma
  \<open>hash_target_selected\<close>, for an id that is a plain identifier). For the target \<^verbatim>\<open>legend\<close> without \<^verbatim>\<open>#\<close> the size is read from
  that element, but the selector \<^verbatim>\<open>legend\<close> selects elements of tag \<^verbatim>\<open>legend\<close>: on a page
  with only a \<^verbatim>\<open>div\<close> of id \<^verbatim>\<open>legend\<close> the call returns normally and appends nothing,
  while the same call with \<^verbatim>\<open>#legend\<close> appends the legend to the \<^verbatim>\<open>div\<close>.
\<close>

theorem bare_id_target_not_rendered:
  "htmlElement [div_legend 100 40 :: (string, string) element] ''legend''
     = Some (div_legend 100 40) \<and>
   colorlegend names [div_legend 100 40] ''legend'' abc ''ordinal'' None
     = (Inr (), [div_legend 100 40]) \<and>
   htmlElement [div_legend 100 40 :: (string, string) element] ''#legend''
     = Some (div_legend 100 40) \<and>
   length (childNodes (hd (snd (colorlegend names [div_legend 100 40] ''#legend'' abc
             ''ordinal'' None)))) = 1"
  by (simp add: colorlegend_def scaleTypes_def htmlElement_def div_legend_def names_def
      querySelector_def ident_start_def ident_char_def lower_char_def d3_append_def Let_def)

subsection \<open>C9: defaults of the options\<close>

text \<open>
  Whatever the call does, it does the same when a field is not set, when it is set to
  its default, and when it is set to a falsy value.
\<close>

lemma falsy_is_unset:
  "colorlegend env doc target scale type None
     = colorlegend env doc target scale type
         (Some \<lparr>boxWidth = Some 20, boxHeight = Some 20, title = None, fill = Some False,
                linearBoxes = Some 9\<rparr>) \<and>
   colorlegend env doc target scale type (Some (opts\<lparr>boxWidth := None\<rparr>))
     = colorlegend env doc target scale type (Some (opts\<lparr>boxWidth := Some 20\<rparr>)) \<and>
   colorlegend env doc target scale type (Some (opts\<lparr>boxWidth := Some 0\<rparr>))
     = colorlegend env doc target scale type (Some (opts\<lparr>boxWidth := None\<rparr>)) \<and>
   colorlegend env doc target scale type (Some (opts\<lparr>boxHeight := None\<rparr>))
     = colorlegend env doc target scale type (Some (opts\<lparr>boxHeight := Some 20\<rparr>)) \<and>
   colorlegend env doc target scale type (Some (opts\<lparr>boxHeight := Some 0\<rparr>))
     = colorlegend env doc target scale type (Some (opts\<lparr>boxHeight := None\<rparr>)) \<and>
   colorlegend env doc target scale type (Some (opts\<lparr>linearBoxes := None\<rparr>))
     = colorlegend env doc target scale type (Some (opts\<lparr>linearBoxes := Some 9\<rparr>)) \<and>
   colorlegend env doc target scale type (Some (opts\<lparr>linearBoxes := Some 0\<rparr>))
     = colorlegend env doc target scale type (Some (opts\<lparr>linearBoxes := None\<rparr>)) \<and>
   colorlegend env doc target scale type (Some (opts\<lparr>title := Some []\<rparr>))
     = colorlegend env doc target scale type (Some (opts\<lparr>title := None\<rparr>)) \<and>
   colorlegend env doc target scale type (Some (opts\<lparr>fill := Some False\<rparr>))
     = colorlegend env doc target scale type (Some (opts\<lparr>fill := None\<rparr>))"
  by (simp add: colorlegend_def Let_def or_empty_def no_options_def or_number_def
      or_integer_def or_null_def or_false_def cong: option.case_cong)

text \<open>
  C9. Let \<open>bw\<close>, \<open>bh\<close>, \<open>lb\<close>, \<open>fl\<close> and \<open>ttl\<close> be the values of the options
  \<^verbatim>\<open>boxWidth\<close>, \<^verbatim>\<open>boxHeight\<close>, \<^verbatim>\<open>linearBoxes\<close>, \<^verbatim>\<open>fill\<close> and \<^verbatim>\<open>title\<close> of a call,
  or 20, 20, 9, false and no title where the options object or the field is not set
  or the field is falsy (0, false, the empty string). A call that renders into element
  \<open>k\<close> draws its legend from these values: every box has the width and the height that
  the fit of lines 99 to 104 gives for the requested \<open>bw\<close> and \<open>bh\<close>, for \<open>fl\<close> and for
  the title padding of \<open>ttl\<close>; a linear call draws \<open>lb\<close> boxes; and the title labels are
  the one with the text of \<open>ttl\<close>, or none. Moreover the whole call, its result and
  its page, is the same for a field that is not set, set to its default, or falsy.
\<close>

theorem defaults_are_used:
  fixes env :: "('d, 'c) host" and scale :: "('d, 'c) scale" and doc :: "('d, 'c) document"
    and target :: string and type :: string and options :: "options option" and k :: nat
    and el :: "('d, 'c) element" and opts :: options
  defines "page \<equiv> snd (colorlegend env doc target scale type options)"
  defines "bw \<equiv> (case options of None \<Rightarrow> 20
                   | Some os \<Rightarrow> (case boxWidth os of None \<Rightarrow> 20
                                | Some x \<Rightarrow> if x = 0 then 20 else x))"
  defines "bh \<equiv> (case options of None \<Rightarrow> 20
                   | Some os \<Rightarrow> (case boxHeight os of None \<Rightarrow> 20
                                | Some x \<Rightarrow> if x = 0 then 20 else x))"
  defines "lb \<equiv> (case options of None \<Rightarrow> 9
                   | Some os \<Rightarrow> (case linearBoxes os of None \<Rightarrow> 9
                                | Some x \<Rightarrow> if x = 0 then 9 else x))"
  defines "fl \<equiv> (case options of None \<Rightarrow> False
                   | Some os \<Rightarrow> (case fill os of None \<Rightarrow> False | Some b \<Rightarrow> b))"
  defines "ttl \<equiv> (case options of None \<Rightarrow> None
                    | Some os \<Rightarrow> (case title os of None \<Rightarrow> None
                                 | Some t \<Rightarrow> if t = [] then None else Some t))"
  assumes valid: "type \<in> {''linear'', ''quantile'', ''ordinal''}"
    and ok: "htmlElement doc target = Some el" "d3_select env doc target = Some k"
      "k < length doc"
  shows "(\<forall>i < length (legend_boxes page k).
            attr (box_rect (legend_boxes page k ! i)) ''width''
              = Some (Num (fit_boxWidth fl (js_of_int (offsetWidth el)) bw (boxSpacing type)
                             (length (legend_boxes page k)))) \<and>
            attr (box_rect (legend_boxes page k ! i)) ''height''
              = Some (Num (fit_boxHeight fl (js_of_int (offsetHeight el)) bh
                             (case ttl of None \<Rightarrow> 0 | Some t \<Rightarrow> 11)))) \<and>
         (type = ''linear'' \<longrightarrow> length (legend_boxes page k) = nat lb) \<and>
         map text_content (legend_titles page k) = (case ttl of None \<Rightarrow> [] | Some t \<Rightarrow> [Str t]) \<and>
         colorlegend env doc target scale type None
           = colorlegend env doc target scale type
               (Some \<lparr>boxWidth = Some 20, boxHeight = Some 20, title = None,
                      fill = Some False, linearBoxes = Some 9\<rparr>) \<and>
         colorlegend env doc target scale type (Some (opts\<lparr>boxWidth := Some 0\<rparr>))
           = colorlegend env doc target scale type (Some (opts\<lparr>boxWidth := None\<rparr>)) \<and>
         colorlegend env doc target scale type (Some (opts\<lparr>boxHeight := Some 0\<rparr>))
           = colorlegend env doc target scale type (Some (opts\<lparr>boxHeight := None\<rparr>)) \<and>
         colorlegend env doc target scale type (Some (opts\<lparr>linearBoxes := Some 0\<rparr>))
           = colorlegend env doc target scale type (Some (opts\<lparr>linearBoxes := None\<rparr>)) \<and>
         colorlegend env doc target scale type (Some (opts\<lparr>title := Some []\<rparr>))
           = colorlegend env doc target scale type (Some (opts\<lparr>title := None\<rparr>)) \<and>
         colorlegend env doc target scale type (Some (opts\<lparr>fill := Some False\<rparr>))
           = colorlegend env doc target scale type (Some (opts\<lparr>fill := None\<rparr>))"
proof -
  have f: "found scaleTypes type" using valid by (simp add: found_scaleTypes)
  have bw: "or_number (boxWidth (or_empty options)) 20 = bw"
    by (simp add: bw_def or_number_def or_empty_def no_options_def split: option.split)
  have bh: "or_number (boxHeight (or_empty options)) 20 = bh"
    by (simp add: bh_def or_number_def or_empty_def no_options_def split: option.split)
  have lb: "or_integer (linearBoxes (or_empty options)) 9 = lb"
    by (simp add: lb_def or_integer_def or_empty_def no_options_def split: option.split)
  have fl: "or_false (fill (or_empty options)) = fl"
    by (simp add: fl_def or_false_def or_empty_def no_options_def split: option.split)
  have ttl: "or_null (title (or_empty options)) = ttl"
    by (simp add: ttl_def or_null_def or_empty_def no_options_def split: option.split)
  let ?colors = "colors_of (ToNumber env) scale type lb"
  let ?W = "fit_boxWidth fl (js_of_int (offsetWidth el)) bw (boxSpacing type) (length ?colors)"
  let ?H = "fit_boxHeight fl (js_of_int (offsetHeight el)) bh (titlePadding ttl)"
  have boxes: "legend_boxes page k = legendBoxes type (domain scale) ?colors ?W ?H"
    unfolding page_def using call_boxes [OF f ok, of scale options]
    by (simp only: bw bh lb fl ttl)
  have titles: "legend_titles page k = title_node ttl (length ?colors) ?W ?H"
    unfolding page_def using call_titles [OF f ok, of scale options]
    by (simp only: bw bh lb fl ttl)
  have len: "length (legend_boxes page k) = length ?colors"
    by (simp add: boxes length_legendBoxes)
  have tp: "titlePadding ttl = (case ttl of None \<Rightarrow> 0 | Some t \<Rightarrow> 11)"
    by (simp add: titlePadding_def split: option.split)
  have rects: "\<forall>i < length (legend_boxes page k).
            attr (box_rect (legend_boxes page k ! i)) ''width''
              = Some (Num (fit_boxWidth fl (js_of_int (offsetWidth el)) bw (boxSpacing type)
                             (length (legend_boxes page k)))) \<and>
            attr (box_rect (legend_boxes page k ! i)) ''height''
              = Some (Num (fit_boxHeight fl (js_of_int (offsetHeight el)) bh
                             (case ttl of None \<Rightarrow> 0 | Some t \<Rightarrow> 11)))"
    unfolding len tp [symmetric] unfolding boxes
    by (simp add: length_legendBoxes rect_legendBoxes rect_node_def attr_def)
  have linear: "type = ''linear'' \<longrightarrow> length (legend_boxes page k) = nat lb"
    unfolding len by (simp add: colors_linear)
  have texts: "map text_content (legend_titles page k)
                 = (case ttl of None \<Rightarrow> [] | Some t \<Rightarrow> [Str t])"
    unfolding titles by (simp add: title_node_def split: option.split)
  from rects linear texts falsy_is_unset [of env doc target scale type opts]
  show ?thesis by blast
qed

text \<open>
  The linear call without options on a target of 300 by 40: nine boxes of 20 by 20 and
  no title.
\<close>

theorem defaults_are_used_witness:
  "''linear'' \<in> {''linear'', ''quantile'', ''ordinal''} \<and>
   htmlElement [div_legend 300 40 :: (jsnum, jsnum) element] ''#legend''
     = Some (div_legend 300 40) \<and>
   d3_select browser [div_legend 300 40 :: (jsnum, jsnum) element] ''#legend'' = Some 0 \<and>
   0 < length [div_legend 300 40 :: (jsnum, jsnum) element] \<and>
   length (legend_boxes (snd (colorlegend browser [div_legend 300 40] ''#legend'' ramp
             ''linear'' None)) 0) = 9 \<and>
   attr (box_rect (legend_boxes (snd (colorlegend browser [div_legend 300 40]
             ''#legend'' ramp ''linear'' None)) 0 ! 0)) ''width'' = Some (Num (Fin 20)) \<and>
   attr (box_rect (legend_boxes (snd (colorlegend browser [div_legend 300 40]
             ''#legend'' ramp ''linear'' None)) 0 ! 0)) ''height'' = Some (Num (Fin 20)) \<and>
   map text_content (legend_titles (snd (colorlegend browser [div_legend 300 40]
             ''#legend'' ramp ''linear'' None)) 0) = []"
proof -
  let ?page = "snd (colorlegend browser [div_legend 300 40 :: (jsnum, jsnum) element]
     ''#legend'' ramp ''linear'' None)"
  have v: "''linear'' \<in> {''linear'', ''quantile'', ''ordinal''}" by simp
  note inst = defaults_are_used [where scale = ramp and options = None
      and opts = no_options, OF v
      page_target [of 300 40] page_select_browser [of 300 40] page_length [of 300 40]]
  note rects = inst [THEN conjunct1]
  note linear = inst [THEN conjunct2, THEN conjunct1]
  note texts = inst [THEN conjunct2, THEN conjunct2, THEN conjunct1]
  from linear have len: "length (legend_boxes ?page 0) = 9" by simp
  have W: "fit_boxWidth False (js_of_int (offsetWidth
             (div_legend 300 40 :: (jsnum, jsnum) element))) 20 (boxSpacing ''linear'') 9
           = Fin 20"
    by (simp add: fit_boxWidth_def boxSpacing_def div_legend_def padding_def js_arith)
  have H: "fit_boxHeight False (js_of_int (offsetHeight
             (div_legend 300 40 :: (jsnum, jsnum) element))) 20 0 = Fin 20"
    by (simp add: fit_boxHeight_def div_legend_def padding_def js_arith)
  from rects texts have
    "attr (box_rect (legend_boxes ?page 0 ! 0)) ''width'' = Some (Num (Fin 20)) \<and>
     attr (box_rect (legend_boxes ?page 0 ! 0)) ''height'' = Some (Num (Fin 20)) \<and>
     map text_content (legend_titles ?page 0) = []"
    by (simp add: len W H)
  with v page_target [of 300 40] page_select_browser [of 300 40] page_length [of 300 40] len
  show ?thesis by blast
qed

subsection \<open>C10: a single box\<close>

text \<open>
  C10. In a linear or quantile call that renders exactly one box into element \<open>k\<close>, the
  label of that box has the text \<^verbatim>\<open>domain[0]\<close>: the branch for the first index comes
  before the branch for the last.
\<close>

theorem single_box_label:
  fixes env :: "('d, 'c) host" and scale :: "('d, 'c) scale" and doc :: "('d, 'c) document"
    and target :: string and type :: string and options :: "options option" and k :: nat
  defines "boxes \<equiv> legend_boxes (snd (colorlegend env doc target scale type options)) k"
  assumes nonord: "type = ''linear'' \<or> type = ''quantile''"
    and ok: "htmlElement doc target = Some el" "d3_select env doc target = Some k"
      "k < length doc"
    and one: "length boxes = 1"
  shows "text_content (box_label (boxes ! 0)) = opt_val Dom (js_index (domain scale) 0)"
proof -
  have f: "found scaleTypes type" using nonord by (auto simp: found_scaleTypes)
  have no: "type \<noteq> ''ordinal''" using nonord by auto
  from one show ?thesis
    unfolding boxes_def call_boxes [OF f ok]
    by (simp add: length_legendBoxes label_legendBoxes label_node_def label_text_def no)
qed

text \<open>On the domain 10 to 110 with one box, the label reads 10.\<close>

theorem single_box_label_witness:
  "(''linear'' = ''linear'' \<or> ''linear'' = ''quantile'') \<and>
   htmlElement [div_legend 300 40 :: (jsnum, jsnum) element] ''#legend''
     = Some (div_legend 300 40) \<and>
   d3_select browser [div_legend 300 40 :: (jsnum, jsnum) element] ''#legend'' = Some 0 \<and>
   0 < length [div_legend 300 40 :: (jsnum, jsnum) element] \<and>
   length (legend_boxes (snd (colorlegend browser [div_legend 300 40] ''#legend'' ramp
             ''linear'' one_box)) 0) = 1 \<and>
   text_content (box_label (legend_boxes (snd (colorlegend browser [div_legend 300 40]
             ''#legend'' ramp ''linear'' one_box)) 0 ! 0)) = Dom (Fin 10)"
proof -
  let ?boxes = "legend_boxes (snd (colorlegend browser
     [div_legend 300 40 :: (jsnum, jsnum) element] ''#legend'' ramp ''linear'' one_box)) 0"
  have v: "''linear'' = ''linear'' \<or> ''linear'' = ''quantile''" by simp
  have f: "found scaleTypes ''linear''" by (simp add: scaleTypes_def)
  have len: "length ?boxes = 1"
    unfolding call_boxes [OF f page_target page_select_browser page_length]
    by (simp add: length_legendBoxes colors_linear one_box_def or_empty_def no_options_def
        or_integer_def)
  have "text_content (box_label (?boxes ! 0)) = opt_val Dom (js_index (domain ramp) 0)"
    by (rule single_box_label [OF v page_target [of 300 40] page_select_browser [of 300 40]
          page_length [of 300 40] len])
  then have "text_content (box_label (?boxes ! 0)) = Dom (Fin 10)"
    by (simp add: ramp_def js_index_def opt_val_def)
  with v page_target [of 300 40] page_select_browser [of 300 40] page_length [of 300 40] len
  show ?thesis by blast
qed

end
